theory Spec2Isabelle
  imports Complex_Main "HOL-Library.Sublist" "HOL-Library.Multiset"
begin

section \<open>JavaScript values used by the exam module\<close>

text \<open>
  A JavaScript number is \<open>NaN\<close>, an infinity or a finite value. Finite values are kept
  as exact rationals: the model agrees with the IEEE doubles of the runtime on every
  computation whose operands and results are doubles (integers of magnitude below
  \<open>2^53\<close>, short decimals such as \<open>2.5\<close>); rounding and overflow are not modelled, and
  \<open>-0\<close> is identified with \<open>0\<close> (no operation below tells them apart).
\<close>

datatype jsnum = NaN | NegInf | Fin rat | PosInf

fun js_add :: "jsnum \<Rightarrow> jsnum \<Rightarrow> jsnum" where
  "js_add NaN _ = NaN"
| "js_add _ NaN = NaN"
| "js_add (Fin a) (Fin b) = Fin (a + b)"
| "js_add PosInf NegInf = NaN"
| "js_add NegInf PosInf = NaN"
| "js_add PosInf _ = PosInf"
| "js_add _ PosInf = PosInf"
| "js_add NegInf _ = NegInf"
| "js_add _ NegInf = NegInf"

text \<open>\<open>a < b\<close>; every comparison with \<open>NaN\<close> is false.\<close>

fun js_lt :: "jsnum \<Rightarrow> jsnum \<Rightarrow> bool" where
  "js_lt NaN _ = False"
| "js_lt _ NaN = False"
| "js_lt (Fin a) (Fin b) = (a < b)"
| "js_lt NegInf NegInf = False"
| "js_lt NegInf _ = True"
| "js_lt _ NegInf = False"
| "js_lt PosInf _ = False"
| "js_lt _ PosInf = True"

text \<open>\<open>a === b\<close> on numbers: \<open>NaN\<close> equals nothing, itself included.\<close>

definition js_eq :: "jsnum \<Rightarrow> jsnum \<Rightarrow> bool" where
  "js_eq a b = (a \<noteq> NaN \<and> b \<noteq> NaN \<and> a = b)"

text \<open>\<open>a <= b\<close>\<close>

definition js_le :: "jsnum \<Rightarrow> jsnum \<Rightarrow> bool" where
  "js_le a b = (js_lt a b \<or> js_eq a b)"

text \<open>\<open>a > b\<close>\<close>

definition js_gt :: "jsnum \<Rightarrow> jsnum \<Rightarrow> bool" where
  "js_gt a b = js_lt b a"

definition isNaN :: "jsnum \<Rightarrow> bool" where
  "isNaN n = (n = NaN)"

text \<open>Truthiness of a number (\<open>0\<close> and \<open>NaN\<close> are falsy) and of a string (\<open>''\<close> is falsy).\<close>

definition truthy_num :: "jsnum \<Rightarrow> bool" where
  "truthy_num n = (n \<noteq> NaN \<and> n \<noteq> Fin 0)"

definition truthy_str :: "string \<Rightarrow> bool" where
  "truthy_str s = (s \<noteq> [])"

text \<open>\<open>x ?? d\<close>: \<open>None\<close> stands for \<open>null\<close> and \<open>undefined\<close>.\<close>

definition nullish :: "'a option \<Rightarrow> 'a \<Rightarrow> 'a" where
  "nullish x d = (case x of None \<Rightarrow> d | Some v \<Rightarrow> v)"

text \<open>\<open>s.includes(sub)\<close>\<close>

definition str_includes :: "string \<Rightarrow> string \<Rightarrow> bool" where
  "str_includes s sub = sublist sub s"

section \<open>Number(value) on strings\<close>

text \<open>
  \<open>Number(s)\<close> for a string \<open>s\<close> is ECMAScript's StringToNumber: white space is
  trimmed, the empty string is \<open>0\<close>, then comes an unsigned \<open>0x\<close>, \<open>0o\<close> or \<open>0b\<close>
  integer, or an optionally signed decimal literal (\<open>12\<close>, \<open>1.5\<close>, \<open>.5\<close>, \<open>5.\<close>, with an
  optional exponent) or \<open>Infinity\<close>; anything else is \<open>NaN\<close>. Strings are byte strings
  here, so the white space trimmed is the ASCII one (tab, line feed, vertical tab, form
  feed, carriage return, space). A finite result is the literal's exact value.
\<close>

definition is_ws :: "char \<Rightarrow> bool" where
  "is_ws c = (c \<in> set [CHR 0x09, CHR 0x0A, CHR 0x0B, CHR 0x0C, CHR 0x0D, CHR '' ''])"

definition trim_ws :: "string \<Rightarrow> string" where
  "trim_ws s = rev (dropWhile is_ws (rev (dropWhile is_ws s)))"

text \<open>The value of a digit in a radix up to 16, if it is one.\<close>

definition digit_in :: "nat \<Rightarrow> char \<Rightarrow> nat option" where
  "digit_in radix c =
     (let n = (of_char c :: nat);
          v = (if 48 \<le> n \<and> n \<le> 57 then Some (n - 48)
               else if 97 \<le> n \<and> n \<le> 102 then Some (n - 87)
               else if 65 \<le> n \<and> n \<le> 70 then Some (n - 55)
               else None)
      in case v of None \<Rightarrow> None | Some d \<Rightarrow> if d < radix then Some d else None)"

definition is_digit :: "char \<Rightarrow> bool" where
  "is_digit c = (digit_in 10 c \<noteq> None)"

definition digits_value :: "nat \<Rightarrow> string \<Rightarrow> nat" where
  "digits_value radix ds =
     foldl (\<lambda>a c. radix * a + (case digit_in radix c of None \<Rightarrow> 0 | Some d \<Rightarrow> d)) 0 ds"

text \<open>A non-empty run of digits of the radix, or \<open>NaN\<close>.\<close>

definition radix_literal :: "nat \<Rightarrow> string \<Rightarrow> jsnum" where
  "radix_literal radix ds =
     (if ds \<noteq> [] \<and> list_all (\<lambda>c. digit_in radix c \<noteq> None) ds
      then Fin (of_nat (digits_value radix ds)) else NaN)"

text \<open>The exponent part after the mantissa: nothing, or \<open>e\<close>/\<open>E\<close>, a sign and digits.\<close>

definition exponent_part :: "string \<Rightarrow> int option" where
  "exponent_part s =
     (case s of
        [] \<Rightarrow> Some 0
      | c # r \<Rightarrow>
          if c = CHR ''e'' \<or> c = CHR ''E'' then
            (let neg = (r \<noteq> [] \<and> hd r = CHR ''-'');
                 ds = (if r \<noteq> [] \<and> (hd r = CHR ''-'' \<or> hd r = CHR ''+'') then tl r else r)
             in if ds \<noteq> [] \<and> list_all is_digit ds
                then Some (if neg then - int (digits_value 10 ds) else int (digits_value 10 ds))
                else None)
          else None)"

definition scale10 :: "rat \<Rightarrow> int \<Rightarrow> rat" where
  "scale10 m e = (if 0 \<le> e then m * 10 ^ nat e else m / 10 ^ nat (- e))"

definition unsigned_decimal :: "string \<Rightarrow> jsnum" where
  "unsigned_decimal s =
     (if s = ''Infinity'' then PosInf
      else
        let ip = takeWhile is_digit s;
            r1 = dropWhile is_digit s;
            dot = (r1 \<noteq> [] \<and> hd r1 = CHR ''.'');
            fp = (if dot then takeWhile is_digit (tl r1) else []);
            r2 = (if dot then dropWhile is_digit (tl r1) else r1)
        in if ip = [] \<and> fp = [] then NaN
           else (case exponent_part r2 of
                   None \<Rightarrow> NaN
                 | Some e \<Rightarrow>
                     Fin (scale10 (of_nat (digits_value 10 ip)
                                   + of_nat (digits_value 10 fp) / 10 ^ length fp) e)))"

fun js_neg :: "jsnum \<Rightarrow> jsnum" where
  "js_neg NaN = NaN"
| "js_neg NegInf = PosInf"
| "js_neg PosInf = NegInf"
| "js_neg (Fin r) = Fin (- r)"

definition StringToNumber :: "string \<Rightarrow> jsnum" where
  "StringToNumber s =
     (let t = trim_ws s in
      if t = [] then Fin 0
      else if take 2 t = ''0x'' \<or> take 2 t = ''0X'' then radix_literal 16 (drop 2 t)
      else if take 2 t = ''0o'' \<or> take 2 t = ''0O'' then radix_literal 8 (drop 2 t)
      else if take 2 t = ''0b'' \<or> take 2 t = ''0B'' then radix_literal 2 (drop 2 t)
      else if hd t = CHR ''-'' then js_neg (unsigned_decimal (tl t))
      else if hd t = CHR ''+'' then unsigned_decimal (tl t)
      else unsigned_decimal t)"

text \<open>\<open>Number.isInteger\<close>\<close>

fun is_integer :: "jsnum \<Rightarrow> bool" where
  "is_integer (Fin r) = (of_int \<lfloor>r\<rfloor> = r)"
| "is_integer _ = False"

text \<open>
  The values a form field or a stored draft holds: absent, a string or a number.
\<close>

datatype jsval = Undefined | Null | Str string | Num jsnum

text \<open>\<open>Number(v)\<close>, \<open>v ?? d\<close> and the truthiness of \<open>v\<close>.\<close>

fun js_Number :: "jsval \<Rightarrow> jsnum" where
  "js_Number Undefined = NaN"
| "js_Number Null = Fin 0"
| "js_Number (Str s) = StringToNumber s"
| "js_Number (Num n) = n"

fun coalesce :: "jsval \<Rightarrow> jsval \<Rightarrow> jsval" where
  "coalesce Undefined d = d"
| "coalesce Null d = d"
| "coalesce v d = v"

fun truthy :: "jsval \<Rightarrow> bool" where
  "truthy Undefined = False"
| "truthy Null = False"
| "truthy (Str s) = truthy_str s"
| "truthy (Num n) = truthy_num n"

section \<open>Requests and outcomes\<close>

text \<open>
  An object keyed by the four question kinds: the \<open>distribution\<close> of a request and the
  grouped \<open>questions\<close> of a response have this shape.
\<close>

record 'a by_kind =
  multiple_choice :: 'a
  true_false :: 'a
  open_analysis :: 'a
  open_exercise :: 'a

text \<open>The outcome of awaiting a collaborator: it throws (with or without a message) or returns.\<close>

datatype 'a outcome = Threw "string option" | Returned 'a

section \<open>exams.controller.ts\<close>

subsection \<open>Responses\<close>

text \<open>
  The envelope helpers of \<open>http.handler\<close> are kept by kind and by their textual
  arguments (message, description); the correlation id and the path they also carry are
  read by no property below and are left out. Non-ASCII letters of the Spanish messages
  are written as their UTF-8 bytes.
\<close>

datatype 'a response =
    BadRequest string string
  | Forbidden string string
  | NotFound string string
  | InternalServerError string string
  | Success 'a string

definition Error_en_validacion :: string where
  "Error_en_validacion = ''Error en validaci'' @ [CHR 0xC3, CHR 0xB3] @ ''n''"

subsection \<open>sumDistribution, create, generate\<close>

text \<open>
  The fields of the two DTOs carry a prefix (\<open>ce_\<close>, \<open>gq_\<close>), since both have a
  \<open>subject\<close>, a \<open>totalQuestions\<close> and so on. A count of the distribution is \<open>None\<close> when
  it is \<open>null\<close> or missing, the case \<open>sumDistribution\<close> provides for with \<open>?? 0\<close>.
\<close>

definition sumDistribution :: "jsnum option by_kind option \<Rightarrow> jsnum" where
  "sumDistribution d =
     (case d of
        None \<Rightarrow> Fin 0
      | Some d \<Rightarrow>
          js_add (js_add (js_add (nullish (multiple_choice d) (Fin 0))
                                 (nullish (true_false d) (Fin 0)))
                         (nullish (open_analysis d) (Fin 0)))
                 (nullish (open_exercise d) (Fin 0)))"

record CreateExamDto =
  ce_subject :: string
  ce_difficulty :: string
  ce_attempts :: jsnum
  ce_totalQuestions :: jsnum
  ce_timeMinutes :: jsnum
  ce_reference :: "string option"
  ce_distribution :: "jsnum option by_kind option"

datatype CreateExamCommand =
  CreateExamCommand string string jsnum jsnum jsnum "string option" "jsnum option by_kind option"

record GenerateQuestionsDto =
  gq_subject :: string
  gq_difficulty :: string
  gq_totalQuestions :: jsnum
  gq_reference :: "string option"
  gq_distribution :: "jsnum option by_kind option"

datatype GenerateQuestionsCommand =
  GenerateQuestionsCommand string string jsnum "string option" "jsnum option by_kind option"

text \<open>
  The controller's collaborators are parameters. What a controller method does is its
  outcome together with the calls it made on its collaborators, in order.
\<close>

datatype call =
    CreateExecute CreateExamCommand
  | GenerateExecute GenerateQuestionsCommand

text \<open>
  \<open>create\<close>: the handler's rejection is not caught, so it is the method's own outcome.
\<close>

definition create ::
  "(CreateExamCommand \<Rightarrow> 'e outcome) \<Rightarrow> CreateExamDto \<Rightarrow> 'e response outcome \<times> call list" where
  "create createExamHandler dto =
     (let sum = sumDistribution (ce_distribution dto) in
      if js_le (ce_totalQuestions dto) (Fin 0) then
        (Returned (BadRequest ''totalQuestions debe ser > 0.'' Error_en_validacion), [])
      else if \<not> js_eq sum (ce_totalQuestions dto) then
        (Returned (BadRequest ''La suma de distribution debe ser igual a totalQuestions.''
                     Error_en_validacion), [])
      else
        let createCmd = CreateExamCommand (ce_subject dto) (ce_difficulty dto) (ce_attempts dto)
                          (ce_totalQuestions dto) (ce_timeMinutes dto) (ce_reference dto)
                          (ce_distribution dto)
        in (case createExamHandler createCmd of
              Threw m \<Rightarrow> (Threw m, [CreateExecute createCmd])
            | Returned exam \<Rightarrow>
                (Returned (Success exam ''Exam created successfully''), [CreateExecute createCmd])))"

text \<open>A generated question: its \<open>type\<close> tag and the rest of the object.\<close>

record 'p generated =
  g_type :: string
  g_rest :: 'p

definition generate ::
  "(GenerateQuestionsCommand \<Rightarrow> 'p generated list outcome) \<Rightarrow> GenerateQuestionsDto
     \<Rightarrow> 'p generated list by_kind response outcome \<times> call list" where
  "generate generateQuestionsHandler dto =
     (let sum = sumDistribution (gq_distribution dto) in
      if js_le (gq_totalQuestions dto) (Fin 0) then
        (Returned (BadRequest ''totalQuestions debe ser > 0.'' Error_en_validacion), [])
      else if \<not> js_eq sum (gq_totalQuestions dto) then
        (Returned (BadRequest ''La suma de distribution debe ser igual a totalQuestions.''
                     Error_en_validacion), [])
      else
        let genCmd = GenerateQuestionsCommand (gq_subject dto) (gq_difficulty dto)
                       (gq_totalQuestions dto) (gq_reference dto) (gq_distribution dto)
        in (case generateQuestionsHandler genCmd of
              Threw m \<Rightarrow> (Threw m, [GenerateExecute genCmd])
            | Returned flat \<Rightarrow>
                let grouped = \<lparr>
                      multiple_choice = filter (\<lambda>q. g_type q = ''multiple_choice'') flat,
                      true_false = filter (\<lambda>q. g_type q = ''true_false'') flat,
                      open_analysis = filter (\<lambda>q. g_type q = ''open_analysis'') flat,
                      open_exercise = filter (\<lambda>q. g_type q = ''open_exercise'') flat \<rparr>
                in (Returned (Success grouped ''Questions generated successfully''),
                    [GenerateExecute genCmd])))"

text \<open>A response is a validation error when it is built by \<open>responseBadRequest\<close>.\<close>

fun is_bad_request :: "'a response outcome \<Rightarrow> bool" where
  "is_bad_request (Returned (BadRequest _ _)) = True"
| "is_bad_request _ = False"

text \<open>
  The distributions of the specification's example (they sum to 5 and to 6), the
  all-zero one, and requests that carry a given total and distribution.
\<close>

definition dist_2111 :: "jsnum option by_kind" where
  "dist_2111 = \<lparr> multiple_choice = Some (Fin 2), true_false = Some (Fin 1),
                  open_analysis = Some (Fin 1), open_exercise = Some (Fin 1) \<rparr>"

definition dist_2112 :: "jsnum option by_kind" where
  "dist_2112 = \<lparr> multiple_choice = Some (Fin 2), true_false = Some (Fin 1),
                  open_analysis = Some (Fin 1), open_exercise = Some (Fin 2) \<rparr>"

definition dist_0000 :: "jsnum option by_kind" where
  "dist_0000 = \<lparr> multiple_choice = Some (Fin 0), true_false = Some (Fin 0),
                  open_analysis = Some (Fin 0), open_exercise = Some (Fin 0) \<rparr>"

definition create_dto :: "jsnum \<Rightarrow> jsnum option by_kind option \<Rightarrow> CreateExamDto" where
  "create_dto tq dn =
     \<lparr> ce_subject = ''Algebra'', ce_difficulty = ''medio'', ce_attempts = Fin 1,
       ce_totalQuestions = tq, ce_timeMinutes = Fin 45, ce_reference = None,
       ce_distribution = dn \<rparr>"

definition generate_dto :: "jsnum \<Rightarrow> jsnum option by_kind option \<Rightarrow> GenerateQuestionsDto" where
  "generate_dto tq dn =
     \<lparr> gq_subject = ''Algebra'', gq_difficulty = ''medio'', gq_totalQuestions = tq,
       gq_reference = None, gq_distribution = dn \<rparr>"

text \<open>A flat answer of the generation collaborator, with a question of an unknown kind.\<close>

definition flat_example :: "nat generated list" where
  "flat_example =
     [\<lparr> g_type = ''true_false'', g_rest = 0 \<rparr>, \<lparr> g_type = ''multiple_choice'', g_rest = 1 \<rparr>,
      \<lparr> g_type = ''essay'', g_rest = 2 \<rparr>, \<lparr> g_type = ''multiple_choice'', g_rest = 3 \<rparr>,
      \<lparr> g_type = ''open_exercise'', g_rest = 4 \<rparr>, \<lparr> g_type = ''open_analysis'', g_rest = 5 \<rparr>]"

subsection \<open>getExamById\<close>

text \<open>
  \<open>user_sub\<close> is \<open>req.user?.sub\<close>: \<open>None\<close> when the request carries no user or the user
  no \<open>sub\<close>. The use case is a parameter; the method catches what it throws, so its
  outcome is always a response. The calls it makes are those on the use case.
\<close>

datatype query_call = GetByIdExecute string string

definition getExamById ::
  "(string \<Rightarrow> string \<Rightarrow> 'd outcome) \<Rightarrow> string \<Rightarrow> string option
     \<Rightarrow> 'd response \<times> query_call list" where
  "getExamById getByIdUseCase examId user_sub =
     (if \<not> truthy_str (nullish user_sub '''') then
        (Forbidden ''Acceso no autorizado'' ''Falta token'', [])
      else
        let sub = nullish user_sub '''' in
        (case getByIdUseCase examId sub of
           Returned data \<Rightarrow> (Success data ''Examen recuperado'', [GetByIdExecute examId sub])
         | Threw e \<Rightarrow>
             let msg = nullish e '''' in
             (if str_includes msg ''Acceso no autorizado'' then
                Forbidden ''Acceso no autorizado'' msg
              else if str_includes msg ''Examen no encontrado'' then
                NotFound ''Examen no encontrado'' msg
              else
                InternalServerError ''Error interno''
                  (if truthy_str msg then msg else ''Error obteniendo examen''),
              [GetByIdExecute examId sub])))"

text \<open>
  Modelled from the spec: the status codes of the helpers of \<open>http.handler\<close>
  (\<open>src/shared/handler/http.handler\<close> is not among the sources). Section 7 of the
  specification: validation error 400, access denied 403, not found 404, internal 500.
\<close>

fun http_status :: "'a response \<Rightarrow> nat" where
  "http_status (BadRequest _ _) = 400"
| "http_status (Forbidden _ _) = 403"
| "http_status (NotFound _ _) = 404"
| "http_status (InternalServerError _ _) = 500"
| "http_status (Success _ _) = 200"

text \<open>
  Modelled from the spec: \<open>GetExamByIdUseCase.execute\<close>
  (\<open>application/queries/get-exam-by-id.usecase\<close> is not among the sources). Section 4.5:
  get-by-id fails with an access-denied condition if the exam exists but belongs to a
  different teacher, and with a not-found condition if no exam with that id exists; the
  two conditions are the messages the controller looks for. The store maps an exam id to
  the stored exam.
\<close>

record exam =
  exam_id :: string
  exam_title :: string
  exam_teacherId :: string

definition GetExamByIdUseCase_execute ::
  "(string \<rightharpoonup> exam) \<Rightarrow> string \<Rightarrow> string \<Rightarrow> exam outcome" where
  "GetExamByIdUseCase_execute store examId teacherId =
     (case store examId of
        None \<Rightarrow> Threw (Some ''Examen no encontrado'')
      | Some e \<Rightarrow>
          if exam_teacherId e \<noteq> teacherId then Threw (Some ''Acceso no autorizado'')
          else Returned e)"

definition exam_of_A :: exam where
  "exam_of_A = \<lparr> exam_id = ''e1'', exam_title = ''Parcial 1'', exam_teacherId = ''teacher-A'' \<rparr>"

definition store_A :: "string \<rightharpoonup> exam" where
  "store_A = [''e1'' \<mapsto> exam_of_A]"

subsection \<open>quickSave\<close>

text \<open>
  The body is loosely shaped (\<open>any\<close>). A field is \<open>None\<close> when the payload has
  \<open>null\<close> or \<open>undefined\<close> there (or no body at all); a present field holds what
  \<open>String(...)\<close> makes of the payload's value. \<open>courseId\<close> is a number or a string.
  \<open>qb_questions\<close> and \<open>qc_questions\<close> are \<open>Some\<close> exactly when \<open>Array.isArray\<close> holds of
  them, \<open>rq_options\<close> too; \<open>qb_content\<close> is \<open>Some\<close> exactly when \<open>body.content\<close> is an
  object.
\<close>

datatype course_ref = CourseNum jsnum | CourseStr string

fun truthy_ref :: "course_ref option \<Rightarrow> bool" where
  "truthy_ref None = False"
| "truthy_ref (Some (CourseNum n)) = truthy_num n"
| "truthy_ref (Some (CourseStr s)) = truthy_str s"

record raw_question =
  rq_id :: "string option"
  rq_type :: "string option"
  rq_text :: "string option"
  rq_options :: "string list option"

record 'c quick_content =
  qc_questions :: "raw_question list option"
  qc_rest :: 'c

record 'c quick_body =
  qb_title :: "string option"
  qb_courseId :: "course_ref option"
  qb_teacherId :: "string option"
  qb_questions :: "raw_question list option"
  qb_content :: "'c quick_content option"
  qb_subject :: "string option"
  qb_difficulty :: "string option"

record question =
  q_id :: string
  q_type :: string
  q_text :: string
  q_options :: "string list option"

text \<open>The \<open>content\<close> that is saved: the payload's own object, or the one built here.\<close>

datatype 'c saved_content =
    GivenContent "'c quick_content"
  | BuiltContent (bc_subject: string) (bc_difficulty: string) (bc_createdAt: string)
      (bc_questions: "question list")

record 'c saved_data =
  sd_title :: string
  sd_status :: string
  sd_content :: "'c saved_content"
  sd_courseId :: "course_ref option"
  sd_teacherId :: "string option"

text \<open>
  The \<open>Course\<close> table as the rows the query sees. \<open>prisma.course.findFirst\<close> with
  \<open>orderBy: { createdAt: 'asc' }\<close> returns \<open>null\<close> on an empty table and a row of least
  \<open>createdAt\<close> otherwise; among rows of equal \<open>createdAt\<close> the database chooses, and the
  model takes the first of them in the table.
\<close>

record course =
  course_id :: course_ref
  course_teacherId :: "string option"
  course_createdAt :: int

fun course_findFirst :: "course list \<Rightarrow> course option" where
  "course_findFirst [] = None"
| "course_findFirst (c # cs) =
     Some (fold (\<lambda>x best. if course_createdAt x < course_createdAt best then x else best) cs c)"

datatype 'c prisma_call = CourseFindFirst | SavedExamCreate "'c saved_data"

text \<open>Decimal digits of a natural number: the template literal's \<open>${ts}\<close> and \<open>${i}\<close>.\<close>

fun decimal :: "nat \<Rightarrow> string" where
  "decimal n =
     (if n < 10 then [char_of (48 + n)] else decimal (n div 10) @ [char_of (48 + n mod 10)])"

declare decimal.simps [simp del]

text \<open>
  \<open>while (used.has(id)) id = `${id}_${Math.random().toString(36).slice(2,6)}`\<close>.
  \<open>used\<close> is the \<open>Set\<close> in insertion order; \<open>rnd k\<close> is the \<open>k\<close>-th suffix drawn from
  \<open>Math.random\<close> (any string, the empty one included), and the number of suffixes drawn
  so far is returned with the id. The loop ends whatever is drawn: every round makes the
  id longer, and \<open>used\<close> holds no id longer than its longest.
\<close>

function fresh_id :: "(nat \<Rightarrow> string) \<Rightarrow> nat \<Rightarrow> string list \<Rightarrow> string \<Rightarrow> string \<times> nat" where
  "fresh_id rnd k used ident =
     (if ident \<in> set used then fresh_id rnd (Suc k) used (ident @ ''_'' @ rnd k)
      else (ident, k))"
  by pat_completeness auto
termination
proof (relation "measure (\<lambda>(rnd, k, used, ident). Suc (Max (length ` set used)) - length ident)")
  show "wf (measure (\<lambda>(rnd, k, used, ident). Suc (Max (length ` set used)) - length ident))"
    by simp
next
  fix rnd :: "nat \<Rightarrow> string" and k :: nat and used :: "string list" and ident :: string
  assume "ident \<in> set used"
  then have "length ident \<le> Max (length ` set used)"
    by (simp add: Max_ge)
  then show "((rnd, Suc k, used, ident @ ''_'' @ rnd k), (rnd, k, used, ident))
       \<in> measure (\<lambda>(rnd, k, used, ident). Suc (Max (length ` set used)) - length ident)"
    by simp
qed

declare fresh_id.simps [simp del]

text \<open>
  The callback of \<open>rawQuestions.map\<close>, run over the array from index \<open>i\<close> with the
  \<open>used\<close> set and the count \<open>k\<close> of suffixes drawn so far.
\<close>

fun normalize_questions ::
  "(nat \<Rightarrow> string) \<Rightarrow> nat \<Rightarrow> nat \<Rightarrow> nat \<Rightarrow> string list \<Rightarrow> raw_question list \<Rightarrow> question list" where
  "normalize_questions rnd ts i k used [] = []"
| "normalize_questions rnd ts i k used (q # qs) =
     (let t = nullish (rq_type q) ''open_analysis'';
          r = fresh_id rnd k used
                (nullish (rq_id q) (''q_'' @ decimal ts @ ''_'' @ t @ ''_'' @ decimal i))
      in \<lparr> q_id = fst r, q_type = t, q_text = nullish (rq_text q) '''',
           q_options = rq_options q \<rparr>
         # normalize_questions rnd ts (Suc i) (snd r) (used @ [fst r]) qs)"

definition rawQuestions :: "'c quick_body \<Rightarrow> raw_question list" where
  "rawQuestions body =
     (case qb_questions body of
        Some qs \<Rightarrow> qs
      | None \<Rightarrow>
          (case qb_content body of
             None \<Rightarrow> []
           | Some c \<Rightarrow> (case qc_questions c of Some qs \<Rightarrow> qs | None \<Rightarrow> [])))"

definition No_hay_courseId :: string where
  "No_hay_courseId =
     ''No hay courseId y no existe ning'' @ [CHR 0xC3, CHR 0xBA] @
     ''n Curso en la base. Crea un curso o env'' @ [CHR 0xC3, CHR 0xAD] @ ''a courseId.''"

text \<open>
  \<open>quickSave\<close>. \<open>courses\<close> is the \<open>Course\<close> table, \<open>savedExam_create\<close> the write
  (\<open>prisma.savedExam.create\<close>, answering with the saved row's \<open>id\<close> and \<open>title\<close>),
  \<open>ts\<close> is \<open>Date.now()\<close>, \<open>now\<close> is \<open>new Date().toISOString()\<close>. No rejection is caught.
  \<open>quickSave_write\<close> is the method from \<open>rawQuestions\<close> on, with the \<open>courseId\<close> and
  \<open>teacherId\<close> settled before it and the calls made so far.
\<close>

definition quickSave_write ::
  "('c saved_data \<Rightarrow> (string \<times> string) outcome) \<Rightarrow> nat \<Rightarrow> (nat \<Rightarrow> string) \<Rightarrow> string
     \<Rightarrow> 'c quick_body \<Rightarrow> course_ref option \<Rightarrow> string option \<Rightarrow> 'c prisma_call list
     \<Rightarrow> (string \<times> string) response outcome \<times> 'c prisma_call list" where
  "quickSave_write savedExam_create ts rnd now body courseId teacherId calls =
     (let title = nullish (qb_title body) ''Examen'';
          questions = normalize_questions rnd ts 0 0 [] (rawQuestions body);
          content =
            (case qb_content body of
               Some c \<Rightarrow> GivenContent c
             | None \<Rightarrow>
                 BuiltContent (nullish (qb_subject body) ''Tema general'')
                   (nullish (qb_difficulty body) ''medio'') now questions);
          data = \<lparr> sd_title = title, sd_status = ''Guardado'', sd_content = content,
                   sd_courseId = courseId,
                   sd_teacherId = (if truthy_str (nullish teacherId '''') then teacherId else None) \<rparr>
      in (case savedExam_create data of
            Threw m \<Rightarrow> (Threw m, calls @ [SavedExamCreate data])
          | Returned saved \<Rightarrow>
              (Returned (Success (fst saved, snd saved) ''Quick exam saved''),
               calls @ [SavedExamCreate data])))"

definition quickSave ::
  "course list \<Rightarrow> ('c saved_data \<Rightarrow> (string \<times> string) outcome) \<Rightarrow> nat \<Rightarrow> (nat \<Rightarrow> string)
     \<Rightarrow> string \<Rightarrow> 'c quick_body \<Rightarrow> (string \<times> string) response outcome \<times> 'c prisma_call list" where
  "quickSave courses savedExam_create ts rnd now body =
     (let courseId = qb_courseId body; teacherId = qb_teacherId body in
      if \<not> truthy_ref courseId then
        (case course_findFirst courses of
           None \<Rightarrow> (Returned (BadRequest No_hay_courseId ''Bad Request''), [CourseFindFirst])
         | Some firstCourse \<Rightarrow>
             quickSave_write savedExam_create ts rnd now body (Some (course_id firstCourse))
               (if \<not> truthy_str (nullish teacherId '''')
                   \<and> truthy_str (nullish (course_teacherId firstCourse) '''')
                then course_teacherId firstCourse else teacherId)
               [CourseFindFirst])
      else quickSave_write savedExam_create ts rnd now body courseId teacherId [])"

text \<open>What a run wrote: the rows handed to \<open>savedExam.create\<close>.\<close>

fun persisted :: "'c prisma_call list \<Rightarrow> 'c saved_data list" where
  "persisted [] = []"
| "persisted (CourseFindFirst # cs) = persisted cs"
| "persisted (SavedExamCreate d # cs) = d # persisted cs"




definition body_of ::
  "course_ref option \<Rightarrow> raw_question list option \<Rightarrow> unit quick_content option \<Rightarrow> unit quick_body" where
  "body_of cid qs content =
     \<lparr> qb_title = None, qb_courseId = cid, qb_teacherId = None, qb_questions = qs,
       qb_content = content, qb_subject = None, qb_difficulty = None \<rparr>"



definition body_min :: "unit quick_body" where
  "body_min = body_of None (Some []) None"

definition courses2 :: "course list" where
  "courses2 =
     [\<lparr> course_id = CourseStr ''c-late'', course_teacherId = Some ''T2'', course_createdAt = 20 \<rparr>,
      \<lparr> course_id = CourseStr ''c-early'', course_teacherId = Some ''T1'', course_createdAt = 10 \<rparr>]"

definition save_ok :: "unit saved_data \<Rightarrow> (string \<times> string) outcome" where
  "save_ok d = Returned (''s1'', sd_title d)"

section \<open>ExamForm: the three-step wizard\<close>

subsection \<open>validateAttempts, validStep\<close>

definition Debes_ingresar :: string where
  "Debes_ingresar = ''Debes ingresar un n'' @ [CHR 0xC3, CHR 0xBA] @ ''mero de intentos.''"

definition Al_menos_1 :: string where
  "Al_menos_1 = ''El n'' @ [CHR 0xC3, CHR 0xBA] @ ''mero de intentos debe ser al menos 1.''"

definition No_mayor_a_3 :: string where
  "No_mayor_a_3 = ''El n'' @ [CHR 0xC3, CHR 0xBA] @ ''mero de intentos no puede ser mayor a 3.''"

definition validateAttempts :: "string \<Rightarrow> string" where
  "validateAttempts v =
     (let num = StringToNumber v in
      if v = '''' \<or> isNaN num then Debes_ingresar
      else if js_lt num (Fin 1) then Al_menos_1
      else if js_gt num (Fin 3) then No_mayor_a_3
      else '''')"

text \<open>
  The component's state as far as the step and \<open>validStep\<close> read it: \<open>step\<close>, the fields
  of \<open>values\<close> that \<open>validStep\<close> looks at (the three of step 0 are strings, so that
  \<open>String(values.attempts)\<close> is \<open>values.attempts\<close>; \<open>timeMinutes\<close> is the
  number 45 or the string of the range input), \<open>errors.timeMinutes\<close>, \<open>sending\<close>, and
  \<open>totalQuestions\<close> as the form hook's \<open>getTotalQuestions()\<close> gave it at this render.
\<close>

record wizard =
  w_step :: int
  w_subject :: string
  w_difficulty :: string
  w_attempts :: string
  w_timeMinutes :: jsval
  w_errors_timeMinutes :: "string option"
  w_totalQuestions :: jsnum
  w_sending :: bool

definition validStep :: "wizard \<Rightarrow> bool" where
  "validStep w =
     (if w_step w = 0 then
        (let attemptsError = validateAttempts (w_attempts w) in
         (truthy_str (w_subject w) \<and> truthy_str (w_difficulty w) \<and> truthy_str (w_attempts w))
         \<and> \<not> truthy_str attemptsError)
      else if w_step w = 1 then js_gt (w_totalQuestions w) (Fin 0)
      else if w_step w = 2 then
        truthy (w_timeMinutes w) \<and> \<not> truthy_str (nullish (w_errors_timeMinutes w) '''')
      else truthy (w_timeMinutes w) \<and> \<not> truthy_str (nullish (w_errors_timeMinutes w) ''''))"

subsection \<open>The handlers that call setStep\<close>

text \<open>
  \<open>setStep\<close> followed by the effect on \<open>[step]\<close>: on reaching step 2, \<open>timeMinutes\<close> is set
  to 45.
\<close>

definition setStep :: "int \<Rightarrow> wizard \<Rightarrow> wizard" where
  "setStep n w =
     (if n = 2 then w\<lparr> w_step := n, w_timeMinutes := Num (Fin 45) \<rparr> else w\<lparr> w_step := n \<rparr>)"

text \<open>
  The \<open>Siguiente\<close> button exists while \<open>step < 2\<close> and is disabled while
  \<open>sending || !validStep()\<close>; its handler checks \<open>validStep()\<close> again.
\<close>

definition onSiguiente :: "wizard \<Rightarrow> wizard" where
  "onSiguiente w =
     (if w_step w < 2 \<and> \<not> (w_sending w \<or> \<not> validStep w) then
        (if validStep w then setStep (w_step w + 1) w else w)
      else w)"

text \<open>The \<open>Anterior\<close> button exists while \<open>step > 0\<close>.\<close>

definition onAnterior :: "wizard \<Rightarrow> wizard" where
  "onAnterior w = (if w_step w > 0 then setStep (w_step w - 1) w else w)"

text \<open>
  \<open>onSubmit\<close>. \<open>touchAndValidate()\<close> asks the form hook's \<open>validate()\<close>, which is not
  part of the component: its verdict \<open>valid\<close> and the \<open>timeMinutes\<close> entry of its errors
  come with the event. Below step 2 a valid form moves one step on; at step 2 the
  missing questions are reported, or the exam is created and \<open>sending\<close> is false again
  when that is over; the step stays.
\<close>

definition onSubmit :: "bool \<Rightarrow> string option \<Rightarrow> wizard \<Rightarrow> wizard" where
  "onSubmit valid errors_timeMinutes w =
     (let w1 = w\<lparr> w_errors_timeMinutes := errors_timeMinutes \<rparr> in
      if \<not> valid then w1
      else if w_step w1 < 2 then setStep (w_step w1 + 1) w1
      else if \<not> js_gt (w_totalQuestions w1) (Fin 0) then w1
      else w1\<lparr> w_sending := False \<rparr>)"

text \<open>
  Every other handler (\<open>onChange\<close>, \<open>onResetStep\<close>, the hook's updates) changes fields
  other than \<open>step\<close>: \<open>Other f\<close> replaces them by those of \<open>f w\<close>.
\<close>

datatype event =
    Siguiente
  | Anterior
  | Submit bool "string option"
  | Other "wizard \<Rightarrow> wizard"

fun handle :: "event \<Rightarrow> wizard \<Rightarrow> wizard" where
  "handle Siguiente w = onSiguiente w"
| "handle Anterior w = onAnterior w"
| "handle (Submit valid errs) w = onSubmit valid errs w"
| "handle (Other f) w = (f w)\<lparr> w_step := w_step w \<rparr>"

text \<open>The state after mounting (\<open>useState(0)\<close> for the step) with empty fields.\<close>

definition wizard_init :: wizard where
  "wizard_init =
     \<lparr> w_step = 0, w_subject = '''', w_difficulty = '''', w_attempts = '''',
       w_timeMinutes = Num (Fin 45), w_errors_timeMinutes = None, w_totalQuestions = Fin 0,
       w_sending = False \<rparr>"

text \<open>Filling the three fields of step 0, as typing and clicking do.\<close>

definition fill_general :: "wizard \<Rightarrow> wizard" where
  "fill_general w = w\<lparr> w_subject := ''Algebra'', w_difficulty := ''medio'', w_attempts := ''2'' \<rparr>"

section \<open>ExamCreatePage: the generation requests\<close>

text \<open>
  Of the form snapshot, the four count fields; of the request, \<open>totalQuestions\<close> and
  \<open>distribution\<close>. The request's \<open>subject\<close>, \<open>difficulty\<close>, \<open>reference\<close> and \<open>language\<close>
  are computed from other fields and do not enter these two.
\<close>

record raw_form =
  rf_multipleChoice :: jsval
  rf_trueFalse :: jsval
  rf_analysis :: jsval
  rf_openEnded :: jsval

record ai_input =
  ai_totalQuestions :: jsnum
  ai_distribution :: "jsnum by_kind"

text \<open>\<open>Number(v ?? 0) || 0\<close>\<close>

definition count_of :: "jsval \<Rightarrow> jsnum" where
  "count_of v =
     (let n = js_Number (coalesce v (Num (Fin 0))) in if truthy_num n then n else Fin 0)"

definition buildAiInputFromForm :: "raw_form \<Rightarrow> ai_input" where
  "buildAiInputFromForm raw =
     (let distribution = \<lparr>
            multiple_choice = count_of (rf_multipleChoice raw),
            true_false = count_of (rf_trueFalse raw),
            open_analysis = count_of (rf_analysis raw),
            open_exercise = count_of (rf_openEnded raw) \<rparr>;
          totalQuestions =
            js_add (js_add (js_add (multiple_choice distribution) (true_false distribution))
                           (open_analysis distribution))
                   (open_exercise distribution)
      in \<lparr> ai_totalQuestions = totalQuestions, ai_distribution = distribution \<rparr>)"

text \<open>The \<open>oneDto\<close> of \<open>onRegenerateOne\<close> for a question of type \<open>t\<close>.\<close>

definition oneDto :: "raw_form \<Rightarrow> string \<Rightarrow> ai_input" where
  "oneDto raw t =
     (let base = buildAiInputFromForm raw in
      base\<lparr> ai_totalQuestions := Fin 1,
            ai_distribution := \<lparr>
              multiple_choice = (if t = ''multiple_choice'' then Fin 1 else Fin 0),
              true_false = (if t = ''true_false'' then Fin 1 else Fin 0),
              open_analysis = (if t = ''open_analysis'' then Fin 1 else Fin 0),
              open_exercise = (if t = ''open_exercise'' then Fin 1 else Fin 0) \<rparr> \<rparr>)"

text \<open>The four literals of \<open>GeneratedQuestion['type']\<close>.\<close>

definition question_kinds :: "string list" where
  "question_kinds = [''multiple_choice'', ''true_false'', ''open_analysis'', ''open_exercise'']"

text \<open>The request body as the controller's DTO reads it: every count is present.\<close>

definition as_dto_distribution :: "jsnum by_kind \<Rightarrow> jsnum option by_kind option" where
  "as_dto_distribution d =
     Some \<lparr> multiple_choice = Some (multiple_choice d), true_false = Some (true_false d),
            open_analysis = Some (open_analysis d), open_exercise = Some (open_exercise d) \<rparr>"

definition form_of :: "jsval \<Rightarrow> jsval \<Rightarrow> jsval \<Rightarrow> jsval \<Rightarrow> raw_form" where
  "form_of a b c d =
     \<lparr> rf_multipleChoice = a, rf_trueFalse = b, rf_analysis = c, rf_openEnded = d \<rparr>"


text \<open>The four entries of such an object, in the order of \<open>question_kinds\<close>.\<close>

definition counts :: "'a by_kind \<Rightarrow> 'a list" where
  "counts d = [multiple_choice d, true_false d, open_analysis d, open_exercise d]"


section \<open>Validation of the distribution (create, generate)\<close>

lemma sumDistribution_None: "sumDistribution None = Fin 0"
  by (simp add: sumDistribution_def)

lemma sumDistribution_examples:
  "sumDistribution (Some dist_2111) = Fin 5"
  "sumDistribution (Some dist_2112) = Fin 6"
  "sumDistribution (Some dist_0000) = Fin 0"
  by (simp_all add: sumDistribution_def nullish_def dist_2111_def dist_2112_def dist_0000_def)

text \<open>On four finite counts \<open>sumDistribution\<close> is their sum.\<close>

lemma sumDistribution_finite:
  "sumDistribution (Some \<lparr> multiple_choice = Some (Fin a), true_false = Some (Fin b),
                             open_analysis = Some (Fin c), open_exercise = Some (Fin d) \<rparr>) =
     Fin (a + b + c + d)"
  by (simp add: sumDistribution_def nullish_def)

lemma create_dto_sel:
  "ce_totalQuestions (create_dto t d) = t" "ce_distribution (create_dto t d) = d"
  by (simp_all add: create_dto_def)

lemma generate_dto_sel:
  "gq_totalQuestions (generate_dto t d) = t" "gq_distribution (generate_dto t d) = d"
  by (simp_all add: generate_dto_def)

lemma create_rejects:
  assumes "js_le (ce_totalQuestions dto) (Fin 0)
           \<or> \<not> js_eq (sumDistribution (ce_distribution dto)) (ce_totalQuestions dto)"
  shows "is_bad_request (fst (create h dto)) \<and> snd (create h dto) = [] \<and>
         create h dto = create h' dto"
  using assms by (auto simp: create_def Let_def)

lemma generate_rejects:
  assumes "js_le (gq_totalQuestions dto) (Fin 0)
           \<or> \<not> js_eq (sumDistribution (gq_distribution dto)) (gq_totalQuestions dto)"
  shows "is_bad_request (fst (generate h dto)) \<and> snd (generate h dto) = [] \<and>
         generate h dto = generate h' dto"
  using assms by (auto simp: generate_def Let_def)



text \<open>
  C2. Whenever \<open>totalQuestions \<le> 0\<close>, \<open>create\<close> and \<open>generate\<close> answer with a bad-request
  response and call no handler (empty trace, same answer whatever the handler would
  do), whatever the distribution is (also one that sums to \<open>totalQuestions\<close>).
\<close>

theorem nonpositive_total_rejected:
  "(js_le (ce_totalQuestions cdto) (Fin 0) \<longrightarrow>
      is_bad_request (fst (create ch cdto)) \<and> snd (create ch cdto) = [] \<and>
      create ch cdto = create ch' cdto) \<and>
   (js_le (gq_totalQuestions gdto) (Fin 0) \<longrightarrow>
      is_bad_request (fst (generate gh gdto)) \<and> snd (generate gh gdto) = [] \<and>
      generate gh gdto = generate gh' gdto)"
  using create_rejects [of cdto ch ch'] generate_rejects [of gdto gh gh'] by blast

theorem nonpositive_total_rejected_witness:
  "js_le (Fin 0) (Fin 0) \<and> js_eq (sumDistribution (Some dist_0000)) (Fin 0) \<and>
   is_bad_request (fst (create (\<lambda>c. Returned ()) (create_dto (Fin 0) (Some dist_0000)))) \<and>
   snd (create (\<lambda>c. Returned ()) (create_dto (Fin 0) (Some dist_0000))) = [] \<and>
   is_bad_request (fst (generate (\<lambda>c. Returned ([] :: unit generated list))
                          (generate_dto (Fin 0) (Some dist_0000)))) \<and>
   snd (generate (\<lambda>c. Returned ([] :: unit generated list))
          (generate_dto (Fin 0) (Some dist_0000))) = [] \<and>
   create (\<lambda>c. Returned ()) (create_dto (Fin 0) (Some dist_0000)) =
     create (\<lambda>c. Threw None) (create_dto (Fin 0) (Some dist_0000)) \<and>
   generate (\<lambda>c. Returned ([] :: unit generated list)) (generate_dto (Fin 0) (Some dist_0000)) =
     generate (\<lambda>c. Threw None) (generate_dto (Fin 0) (Some dist_0000))"
proof -
  have le: "js_le (Fin 0) (Fin 0)"
    by (simp add: js_le_def js_eq_def)
  have eq: "js_eq (sumDistribution (Some dist_0000)) (Fin 0)"
    by (simp add: sumDistribution_examples js_eq_def)
  show ?thesis
    using le eq
      nonpositive_total_rejected [of "create_dto (Fin 0) (Some dist_0000)" "\<lambda>c. Returned ()" "\<lambda>c. Threw None"
        "generate_dto (Fin 0) (Some dist_0000)" "\<lambda>c. Returned ([] :: unit generated list)"
        "\<lambda>c. Threw None"]
    unfolding create_dto_sel generate_dto_sel by blast
qed

text \<open>
  C3. A create request with \<open>totalQuestions = 5\<close> and no distribution is not persisted:
  \<open>sumDistribution\<close> gives \<open>0\<close> for the missing distribution, the sum check compares it
  with \<open>5\<close>, and the answer is the bad-request response of the sum check, with no call
  on the create handler.
\<close>

theorem create_without_distribution_rejected:
  "create h (create_dto (Fin 5) None) =
     (Returned (BadRequest ''La suma de distribution debe ser igual a totalQuestions.''
                  Error_en_validacion), [])"
  by (simp add: create_def create_dto_def sumDistribution_def js_le_def js_eq_def)

text \<open>The specification's own example with a distribution that sums to 5 is accepted.\<close>

lemma create_example_accepted:
  "create (\<lambda>c. Returned e) (create_dto (Fin 5) (Some dist_2111)) =
     (Returned (Success e ''Exam created successfully''),
      [CreateExecute (CreateExamCommand ''Algebra'' ''medio'' (Fin 1) (Fin 5) (Fin 45) None
         (Some dist_2111))])"
  by (simp add: create_def create_dto_def sumDistribution_examples js_le_def js_eq_def)

text \<open>
  C5. When the request passes validation and the collaborator returns the flat sequence
  \<open>flat\<close>, the response carries four buckets; the bucket of a kind is a subsequence of
  \<open>flat\<close> (relative order kept) holding, with their multiplicities, exactly the questions
  of \<open>flat\<close> whose \<open>type\<close> is that kind.
\<close>

theorem generate_groups_by_kind:
  assumes "\<not> js_le (gq_totalQuestions dto) (Fin 0)"
    and "js_eq (sumDistribution (gq_distribution dto)) (gq_totalQuestions dto)"
    and "h (GenerateQuestionsCommand (gq_subject dto) (gq_difficulty dto) (gq_totalQuestions dto)
              (gq_reference dto) (gq_distribution dto)) = Returned flat"
  shows "\<exists>g. fst (generate h dto) = Returned (Success g ''Questions generated successfully'') \<and>
           subseq (multiple_choice g) flat \<and>
           mset (multiple_choice g) = {#q \<in># mset flat. g_type q = ''multiple_choice''#} \<and>
           subseq (true_false g) flat \<and>
           mset (true_false g) = {#q \<in># mset flat. g_type q = ''true_false''#} \<and>
           subseq (open_analysis g) flat \<and>
           mset (open_analysis g) = {#q \<in># mset flat. g_type q = ''open_analysis''#} \<and>
           subseq (open_exercise g) flat \<and>
           mset (open_exercise g) = {#q \<in># mset flat. g_type q = ''open_exercise''#}"
  using assms by (simp add: generate_def Let_def)

theorem generate_groups_by_kind_witness:
  "\<exists>g. fst (generate (\<lambda>c. Returned flat_example) (generate_dto (Fin 5) (Some dist_2111))) =
          Returned (Success g ''Questions generated successfully'') \<and>
       subseq (multiple_choice g) flat_example \<and>
       mset (multiple_choice g) = {#q \<in># mset flat_example. g_type q = ''multiple_choice''#} \<and>
       subseq (true_false g) flat_example \<and>
       mset (true_false g) = {#q \<in># mset flat_example. g_type q = ''true_false''#} \<and>
       subseq (open_analysis g) flat_example \<and>
       mset (open_analysis g) = {#q \<in># mset flat_example. g_type q = ''open_analysis''#} \<and>
       subseq (open_exercise g) flat_example \<and>
       mset (open_exercise g) = {#q \<in># mset flat_example. g_type q = ''open_exercise''#}"
proof -
  have pos: "\<not> js_le (gq_totalQuestions (generate_dto (Fin 5) (Some dist_2111))) (Fin 0)"
    by (simp add: generate_dto_sel js_le_def js_eq_def)
  have sum: "js_eq (sumDistribution (gq_distribution (generate_dto (Fin 5) (Some dist_2111))))
               (gq_totalQuestions (generate_dto (Fin 5) (Some dist_2111)))"
    by (simp add: generate_dto_sel sumDistribution_examples js_eq_def)
  show ?thesis
    by (rule generate_groups_by_kind [OF pos sum]) simp
qed

text \<open>The grouped answer for that flat sequence, computed.\<close>

lemma generate_example:
  "fst (generate (\<lambda>c. Returned flat_example) (generate_dto (Fin 5) (Some dist_2111))) =
     Returned (Success
       \<lparr> multiple_choice = [\<lparr> g_type = ''multiple_choice'', g_rest = 1 \<rparr>,
                            \<lparr> g_type = ''multiple_choice'', g_rest = 3 \<rparr>],
         true_false = [\<lparr> g_type = ''true_false'', g_rest = 0 \<rparr>],
         open_analysis = [\<lparr> g_type = ''open_analysis'', g_rest = 5 \<rparr>],
         open_exercise = [\<lparr> g_type = ''open_exercise'', g_rest = 4 \<rparr>] \<rparr>
       ''Questions generated successfully'')"
  by (simp add: generate_def generate_dto_def sumDistribution_examples js_le_def js_eq_def
      flat_example_def)

section \<open>Get exam by id\<close>

lemma getExamById_no_identity:
  "\<not> truthy_str (nullish user_sub '''') \<Longrightarrow>
   getExamById uc examId user_sub = (Forbidden ''Acceso no autorizado'' ''Falta token'', [])"
  by (simp add: getExamById_def)

lemma getExamById_threw:
  assumes "truthy_str sub" and "uc examId sub = Threw e"
  shows "fst (getExamById uc examId (Some sub)) =
           (if str_includes (nullish e '''') ''Acceso no autorizado'' then
              Forbidden ''Acceso no autorizado'' (nullish e '''')
            else if str_includes (nullish e '''') ''Examen no encontrado'' then
              NotFound ''Examen no encontrado'' (nullish e '''')
            else InternalServerError ''Error interno''
                   (if truthy_str (nullish e '''') then nullish e ''''
                    else ''Error obteniendo examen''))"
  using assms by (simp add: getExamById_def nullish_def Let_def)

lemma includes_self: "str_includes s s"
  by (simp add: str_includes_def)

lemma not_found_excludes_denied:
  "\<not> str_includes ''Examen no encontrado'' ''Acceso no autorizado''"
  unfolding str_includes_def by code_simp

lemma getExamById_other_owner:
  assumes "truthy_str sub" and "store examId = Some e" and "exam_teacherId e \<noteq> sub"
  shows "fst (getExamById (GetExamByIdUseCase_execute store) examId (Some sub)) =
           Forbidden ''Acceso no autorizado'' ''Acceso no autorizado''"
proof -
  have "GetExamByIdUseCase_execute store examId sub = Threw (Some ''Acceso no autorizado'')"
    using assms(2,3) by (simp add: GetExamByIdUseCase_execute_def)
  with assms(1) show ?thesis
    using getExamById_threw [where uc = "GetExamByIdUseCase_execute store" and sub = sub
        and examId = examId and e = "Some ''Acceso no autorizado''"]
    by (simp add: nullish_def includes_self)
qed

lemma getExamById_absent:
  assumes "truthy_str sub" and "store examId = None"
  shows "fst (getExamById (GetExamByIdUseCase_execute store) examId (Some sub)) =
           NotFound ''Examen no encontrado'' ''Examen no encontrado''"
proof -
  have "GetExamByIdUseCase_execute store examId sub = Threw (Some ''Examen no encontrado'')"
    using assms(2) by (simp add: GetExamByIdUseCase_execute_def)
  with assms(1) show ?thesis
    using getExamById_threw [where uc = "GetExamByIdUseCase_execute store" and sub = sub
        and examId = examId and e = "Some ''Examen no encontrado''"]
    by (simp add: nullish_def includes_self not_found_excludes_denied)
qed

text \<open>
  C4. \<open>getExamById\<close>: without a caller identity the response is 403 and the use case is
  not called; with an identity, an exam owned by another teacher gives 403 and an
  exam id that is not stored gives 404 (the use case modelled from the specification),
  two different responses; and whatever the use case throws is classified by its message text:
  containing \<open>Acceso no autorizado\<close> gives 403, otherwise containing
  \<open>Examen no encontrado\<close> gives 404, anything else 500.
\<close>

theorem getExamById_failure_kinds:
  "(\<not> truthy_str (nullish user_sub '''') \<longrightarrow>
      http_status (fst (getExamById uc examId user_sub)) = 403 \<and>
      snd (getExamById uc examId user_sub) = []) \<and>
   (truthy_str sub \<and> store examId = Some e \<and> exam_teacherId e \<noteq> sub \<longrightarrow>
      http_status (fst (getExamById (GetExamByIdUseCase_execute store) examId (Some sub))) = 403) \<and>
   (truthy_str sub \<and> store examId' = None \<longrightarrow>
      http_status (fst (getExamById (GetExamByIdUseCase_execute store) examId' (Some sub))) = 404) \<and>
   (truthy_str sub \<and> store examId = Some e \<and> exam_teacherId e \<noteq> sub \<and> store examId' = None \<longrightarrow>
      fst (getExamById (GetExamByIdUseCase_execute store) examId (Some sub)) \<noteq>
      fst (getExamById (GetExamByIdUseCase_execute store) examId' (Some sub))) \<and>
   (truthy_str sub \<and> uc examId sub = Threw m \<longrightarrow>
      http_status (fst (getExamById uc examId (Some sub))) =
        (if str_includes (nullish m '''') ''Acceso no autorizado'' then 403
         else if str_includes (nullish m '''') ''Examen no encontrado'' then 404
         else 500))"
proof (intro conjI impI)
  assume "\<not> truthy_str (nullish user_sub '''')"
  then show "http_status (fst (getExamById uc examId user_sub)) = 403"
    and "snd (getExamById uc examId user_sub) = []"
    by (simp_all add: getExamById_no_identity)
next
  assume "truthy_str sub \<and> store examId = Some e \<and> exam_teacherId e \<noteq> sub"
  then show "http_status (fst (getExamById (GetExamByIdUseCase_execute store) examId (Some sub))) = 403"
    by (simp add: getExamById_other_owner)
next
  assume "truthy_str sub \<and> store examId' = None"
  then show "http_status (fst (getExamById (GetExamByIdUseCase_execute store) examId' (Some sub))) = 404"
    by (simp add: getExamById_absent)
next
  assume "truthy_str sub \<and> store examId = Some e \<and> exam_teacherId e \<noteq> sub \<and> store examId' = None"
  then show "fst (getExamById (GetExamByIdUseCase_execute store) examId (Some sub)) \<noteq>
             fst (getExamById (GetExamByIdUseCase_execute store) examId' (Some sub))"
    by (simp add: getExamById_other_owner getExamById_absent)
next
  assume "truthy_str sub \<and> uc examId sub = Threw m"
  then show "http_status (fst (getExamById uc examId (Some sub))) =
        (if str_includes (nullish m '''') ''Acceso no autorizado'' then 403
         else if str_includes (nullish m '''') ''Examen no encontrado'' then 404
         else 500)"
    by (simp add: getExamById_threw)
qed

lemma boom_classified:
  "\<not> str_includes ''boom'' ''Acceso no autorizado''"
  "\<not> str_includes ''boom'' ''Examen no encontrado''"
  unfolding str_includes_def by code_simp+

theorem getExamById_failure_kinds_witness:
  "http_status (fst (getExamById (\<lambda>i t. Threw (Some ''boom'') :: exam outcome) ''e1'' None)) = 403 \<and>
   snd (getExamById (\<lambda>i t. Threw (Some ''boom'') :: exam outcome) ''e1'' None) = [] \<and>
   store_A ''e1'' = Some exam_of_A \<and> exam_teacherId exam_of_A \<noteq> ''teacher-B'' \<and>
   http_status (fst (getExamById (GetExamByIdUseCase_execute store_A) ''e1'' (Some ''teacher-B''))) = 403 \<and>
   store_A ''e2'' = None \<and>
   http_status (fst (getExamById (GetExamByIdUseCase_execute store_A) ''e2'' (Some ''teacher-B''))) = 404 \<and>
   fst (getExamById (GetExamByIdUseCase_execute store_A) ''e1'' (Some ''teacher-B'')) \<noteq>
   fst (getExamById (GetExamByIdUseCase_execute store_A) ''e2'' (Some ''teacher-B'')) \<and>
   http_status (fst (getExamById (\<lambda>i t. Threw (Some ''boom'') :: exam outcome) ''e1''
                       (Some ''teacher-B''))) = 500"
  using getExamById_failure_kinds [where user_sub = None
      and uc = "\<lambda>i t. Threw (Some ''boom'') :: exam outcome" and examId = "''e1''"
      and sub = "''teacher-B''" and store = store_A and e = exam_of_A and examId' = "''e2''"
      and m = "Some ''boom''"]
  by (simp add: store_A_def exam_of_A_def nullish_def truthy_str_def boom_classified)

section \<open>Quick save\<close>









lemma fold_least:
  "fold (\<lambda>x best. if course_createdAt x < course_createdAt best then x else best) cs c
     \<in> set (c # cs) \<and>
   (\<forall>x \<in> set (c # cs).
      course_createdAt
        (fold (\<lambda>x best. if course_createdAt x < course_createdAt best then x else best) cs c)
      \<le> course_createdAt x)"
proof (induction cs arbitrary: c)
  case Nil
  show ?case by simp
next
  case (Cons a cs)
  show ?case
    using Cons.IH [of a] Cons.IH [of c] by (cases "course_createdAt a < course_createdAt c") auto
qed

lemma course_findFirst_least:
  assumes "courses \<noteq> []"
  shows "\<exists>c. course_findFirst courses = Some c \<and> c \<in> set courses \<and>
             (\<forall>x \<in> set courses. course_createdAt c \<le> course_createdAt x)"
proof (cases courses)
  case Nil
  with assms show ?thesis by simp
next
  case (Cons c cs)
  then show ?thesis
    using fold_least [of cs c] by simp
qed

lemma persisted_append: "persisted (xs @ ys) = persisted xs @ persisted ys"
  by (induction xs rule: persisted.induct) simp_all

lemma quickSave_write_persisted:
  "persisted (snd (quickSave_write sc ts rnd now body courseId teacherId calls)) =
     persisted calls @
     [\<lparr> sd_title = nullish (qb_title body) ''Examen'', sd_status = ''Guardado'',
        sd_content =
          (case qb_content body of
             Some c \<Rightarrow> GivenContent c
           | None \<Rightarrow>
               BuiltContent (nullish (qb_subject body) ''Tema general'')
                 (nullish (qb_difficulty body) ''medio'') now
                 (normalize_questions rnd ts 0 0 [] (rawQuestions body))),
        sd_courseId = courseId,
        sd_teacherId = (if truthy_str (nullish teacherId '''') then teacherId else None) \<rparr>]"
  by (simp add: quickSave_write_def Let_def persisted_append split: outcome.splits)







text \<open>
  C8. A quick-save request without a (truthy) \<open>courseId\<close>: on an empty \<open>Course\<close> table
  the answer is the bad-request response and nothing is written (no row is handed to
  \<open>savedExam.create\<close>, and the answer does not depend on it); otherwise exactly one
  row is written, its \<open>courseId\<close> is the id of a course of least \<open>createdAt\<close>, and its
  \<open>teacherId\<close> is the payload's own when it has one, else that course's (when the course
  has one).
\<close>

theorem quickSave_course_fallback:
  assumes "\<not> truthy_ref (qb_courseId body)"
  shows "is_bad_request (fst (quickSave [] sc ts rnd now body)) \<and>
         persisted (snd (quickSave [] sc ts rnd now body)) = [] \<and>
         quickSave [] sc ts rnd now body = quickSave [] sc' ts rnd now body \<and>
         (courses \<noteq> [] \<longrightarrow>
            (\<exists>c d. c \<in> set courses \<and>
               (\<forall>x \<in> set courses. course_createdAt c \<le> course_createdAt x) \<and>
               persisted (snd (quickSave courses sc ts rnd now body)) = [d] \<and>
               sd_courseId d = Some (course_id c) \<and>
               sd_teacherId d =
                 (if truthy_str (nullish (qb_teacherId body) '''') then qb_teacherId body
                  else if truthy_str (nullish (course_teacherId c) '''') then course_teacherId c
                  else None)))"
proof (intro conjI impI)
  show "is_bad_request (fst (quickSave [] sc ts rnd now body))"
    using assms by (simp add: quickSave_def)
  show "persisted (snd (quickSave [] sc ts rnd now body)) = []"
    using assms by (simp add: quickSave_def)
  show "quickSave [] sc ts rnd now body = quickSave [] sc' ts rnd now body"
    using assms by (simp add: quickSave_def)
next
  assume "courses \<noteq> []"
  then obtain c where c: "course_findFirst courses = Some c" "c \<in> set courses"
      "\<forall>x \<in> set courses. course_createdAt c \<le> course_createdAt x"
    using course_findFirst_least by blast
  show "\<exists>c d. c \<in> set courses \<and>
               (\<forall>x \<in> set courses. course_createdAt c \<le> course_createdAt x) \<and>
               persisted (snd (quickSave courses sc ts rnd now body)) = [d] \<and>
               sd_courseId d = Some (course_id c) \<and>
               sd_teacherId d =
                 (if truthy_str (nullish (qb_teacherId body) '''') then qb_teacherId body
                  else if truthy_str (nullish (course_teacherId c) '''') then course_teacherId c
                  else None)"
    using assms c
    by (intro exI [of _ c]) (simp add: quickSave_def quickSave_write_persisted)
qed

lemma body_min_run:
  "map (\<lambda>d. (sd_courseId d, sd_teacherId d))
     (persisted (snd (quickSave courses2 save_ok 5 (\<lambda>k. ''ab'') ''2025-09-11T20:14:18.000Z'' body_min))) =
     [(Some (CourseStr ''c-early''), Some ''T1'')]"
  by code_simp

theorem quickSave_course_fallback_witness:
  "\<not> truthy_ref (qb_courseId body_min) \<and> courses2 \<noteq> [] \<and>
   is_bad_request (fst (quickSave [] save_ok 5 (\<lambda>k. ''ab'') ''2025-09-11T20:14:18.000Z'' body_min)) \<and>
   persisted (snd (quickSave [] save_ok 5 (\<lambda>k. ''ab'') ''2025-09-11T20:14:18.000Z'' body_min)) = [] \<and>
   (\<exists>c d. c \<in> set courses2 \<and>
      (\<forall>x \<in> set courses2. course_createdAt c \<le> course_createdAt x) \<and>
      persisted (snd (quickSave courses2 save_ok 5 (\<lambda>k. ''ab'') ''2025-09-11T20:14:18.000Z'' body_min)) = [d] \<and>
      sd_courseId d = Some (course_id c) \<and>
      sd_teacherId d = course_teacherId c) \<and>
   map (\<lambda>d. (sd_courseId d, sd_teacherId d))
     (persisted (snd (quickSave courses2 save_ok 5 (\<lambda>k. ''ab'') ''2025-09-11T20:14:18.000Z'' body_min))) =
     [(Some (CourseStr ''c-early''), Some ''T1'')]"
proof -
  have h: "\<not> truthy_ref (qb_courseId body_min)"
    by (simp add: body_min_def body_of_def)
  have ne: "courses2 \<noteq> []"
    by (simp add: courses2_def)
  have t: "\<And>c. c \<in> set courses2 \<Longrightarrow> truthy_str (nullish (course_teacherId c) '''')"
    by (auto simp: courses2_def nullish_def truthy_str_def)
  have b: "\<not> truthy_str (nullish (qb_teacherId body_min) '''')"
    by (simp add: body_min_def body_of_def nullish_def truthy_str_def)
  from quickSave_course_fallback [OF h, where sc = save_ok and sc' = save_ok and ts = 5
      and rnd = "\<lambda>k. ''ab''" and now = "''2025-09-11T20:14:18.000Z''" and courses = courses2]
  show ?thesis
    using h ne b t body_min_run by (simp only: simp_thms if_True if_False) metis
qed

section \<open>The wizard's validation and steps\<close>

lemma attempts_messages_distinct:
  "distinct [Debes_ingresar, Al_menos_1, No_mayor_a_3, '''']"
  by (simp add: Debes_ingresar_def Al_menos_1_def No_mayor_a_3_def)

lemma validateAttempts_empty_iff:
  "validateAttempts v = '''' \<longleftrightarrow>
     v \<noteq> '''' \<and> (\<exists>r. StringToNumber v = Fin r \<and> 1 \<le> r \<and> r \<le> 3)"
proof (cases "StringToNumber v")
  case NaN
  then show ?thesis
    using attempts_messages_distinct by (simp add: validateAttempts_def isNaN_def Let_def)
next
  case NegInf
  then show ?thesis
    using attempts_messages_distinct by (simp add: validateAttempts_def isNaN_def Let_def)
next
  case (Fin r)
  then show ?thesis
    using attempts_messages_distinct
    by (auto simp: validateAttempts_def isNaN_def js_gt_def Let_def split: if_splits)
next
  case PosInf
  then show ?thesis
    using attempts_messages_distinct by (simp add: validateAttempts_def isNaN_def js_gt_def Let_def)
qed

lemma js_lt_not_NaN: "js_lt a b \<Longrightarrow> a \<noteq> NaN \<and> b \<noteq> NaN"
  by (cases a; cases b) simp_all

lemma js_lt_1_3: "js_lt a (Fin 1) \<Longrightarrow> \<not> js_lt (Fin 3) a"
  by (cases a) simp_all

lemma validStep_0:
  "w_step w = 0 \<Longrightarrow>
   validStep w \<longleftrightarrow>
     w_subject w \<noteq> '''' \<and> w_difficulty w \<noteq> '''' \<and> w_attempts w \<noteq> '''' \<and>
     validateAttempts (w_attempts w) = ''''"
  by (simp add: validStep_def truthy_str_def Let_def)

text \<open>
  C6 (as the code has it). \<open>validateAttempts\<close> accepts a value exactly when it is a
  non-empty string that \<open>Number\<close> converts to a number between 1 and 3 inclusive, an
  integer or not. It rejects with three messages, all different and different from the
  empty string: one shared by the blank and the non-numeric value, one for a number
  below 1, one for a number above 3. At step 0 \<open>validStep\<close> holds exactly when subject,
  difficulty and attempts are non-empty and \<open>validateAttempts\<close> accepts the attempts.
\<close>

theorem validateAttempts_accepts:
  "(validateAttempts v = '''' \<longleftrightarrow>
      v \<noteq> '''' \<and> (\<exists>r. StringToNumber v = Fin r \<and> 1 \<le> r \<and> r \<le> 3)) \<and>
   (vb = '''' \<or> StringToNumber vb = NaN \<longrightarrow> validateAttempts vb = Debes_ingresar) \<and>
   (vl \<noteq> '''' \<and> js_lt (StringToNumber vl) (Fin 1) \<longrightarrow> validateAttempts vl = Al_menos_1) \<and>
   (vh \<noteq> '''' \<and> js_gt (StringToNumber vh) (Fin 3) \<longrightarrow> validateAttempts vh = No_mayor_a_3) \<and>
   distinct [Debes_ingresar, Al_menos_1, No_mayor_a_3, ''''] \<and>
   (w_step w = 0 \<longrightarrow>
      (validStep w \<longleftrightarrow>
         w_subject w \<noteq> '''' \<and> w_difficulty w \<noteq> '''' \<and> w_attempts w \<noteq> '''' \<and>
         validateAttempts (w_attempts w) = ''''))"
proof (intro conjI impI)
  show "validateAttempts v = '''' \<longleftrightarrow>
      v \<noteq> '''' \<and> (\<exists>r. StringToNumber v = Fin r \<and> 1 \<le> r \<and> r \<le> 3)"
    by (rule validateAttempts_empty_iff)
next
  assume "vb = '''' \<or> StringToNumber vb = NaN"
  then show "validateAttempts vb = Debes_ingresar"
    by (auto simp: validateAttempts_def isNaN_def Let_def)
next
  assume a: "vl \<noteq> '''' \<and> js_lt (StringToNumber vl) (Fin 1)"
  then have "StringToNumber vl \<noteq> NaN"
    using js_lt_not_NaN by blast
  with a show "validateAttempts vl = Al_menos_1"
    by (simp add: validateAttempts_def isNaN_def Let_def)
next
  assume a: "vh \<noteq> '''' \<and> js_gt (StringToNumber vh) (Fin 3)"
  then have "StringToNumber vh \<noteq> NaN" and "\<not> js_lt (StringToNumber vh) (Fin 1)"
    using js_lt_not_NaN js_lt_1_3 by (auto simp: js_gt_def)
  with a show "validateAttempts vh = No_mayor_a_3"
    by (simp add: validateAttempts_def isNaN_def Let_def)
next
  show "distinct [Debes_ingresar, Al_menos_1, No_mayor_a_3, '''']"
    by (rule attempts_messages_distinct)
next
  assume "w_step w = 0"
  then show "validStep w \<longleftrightarrow>
         w_subject w \<noteq> '''' \<and> w_difficulty w \<noteq> '''' \<and> w_attempts w \<noteq> '''' \<and>
         validateAttempts (w_attempts w) = ''''"
    by (rule validStep_0)
qed

lemma attempts_numbers:
  "StringToNumber ''2'' = Fin 2" "StringToNumber ''abc'' = NaN"
  "StringToNumber ''0'' = Fin 0" "StringToNumber ''4'' = Fin 4"
  by code_simp+

theorem validateAttempts_accepts_witness:
  "validateAttempts ''2'' = '''' \<and>
   StringToNumber ''abc'' = NaN \<and> validateAttempts ''abc'' = Debes_ingresar \<and>
   js_lt (StringToNumber ''0'') (Fin 1) \<and> validateAttempts ''0'' = Al_menos_1 \<and>
   js_gt (StringToNumber ''4'') (Fin 3) \<and> validateAttempts ''4'' = No_mayor_a_3 \<and>
   w_step (fill_general wizard_init) = 0 \<and> validStep (fill_general wizard_init)"
  using validateAttempts_accepts [of "''2''" "''abc''" "''0''" "''4''" "fill_general wizard_init"]
  by (simp add: attempts_numbers js_gt_def fill_general_def wizard_init_def)

text \<open>
  \<open>2.5\<close> is accepted and is not an integer; the blank and a non-numeric value get the
  same message.
\<close>

theorem validateAttempts_counterexample:
  "validateAttempts ''2.5'' = '''' \<and> StringToNumber ''2.5'' = Fin (5 / 2) \<and>
   \<not> is_integer (StringToNumber ''2.5'') \<and>
   validateAttempts '''' = validateAttempts ''abc''"
  by code_simp

lemma setStep_step: "w_step (setStep n w) = n"
  by (simp add: setStep_def)

lemma handle_step_cases:
  "w_step (handle e w) = w_step w \<or>
   (w_step (handle e w) = w_step w + 1 \<and> w_step w < 2 \<and>
      ((e = Siguiente \<and> validStep w \<and> \<not> w_sending w) \<or> (\<exists>errs. e = Submit True errs))) \<or>
   (w_step (handle e w) = w_step w - 1 \<and> e = Anterior \<and> w_step w > 0)"
  by (cases e) (auto simp: onSiguiente_def onAnterior_def onSubmit_def Let_def setStep_step)

lemma handle_step_range:
  assumes "w_step w \<in> {0, 1, 2}"
  shows "w_step (handle e w) \<in> {0, 1, 2}"
  using assms handle_step_cases [of e w] by auto

lemma run_step_range:
  "w_step w \<in> {0, 1, 2} \<Longrightarrow> w_step (fold handle es w) \<in> {0, 1, 2}"
proof (induction es arbitrary: w)
  case Nil
  then show ?case by simp
next
  case (Cons e es)
  from Cons.prems have "w_step (handle e w) \<in> {0, 1, 2}"
    by (rule handle_step_range)
  then show ?case
    using Cons.IH by simp
qed

text \<open>
  C9 (as the code has it). From the mounted form the step is always 0, 1 or 2. A handler
  leaves the step, adds 1 or subtracts 1. It adds 1 only below step 2, and only through
  \<open>Siguiente\<close> with \<open>validStep()\<close> true (and nothing being sent) or through a form
  submission that the form hook's \<open>validate()\<close> passes. It subtracts 1 only through
  \<open>Anterior\<close>, above step 0.
\<close>

theorem wizard_step_transitions:
  "w_step (fold handle es wizard_init) \<in> {0, 1, 2} \<and>
   (w_step (handle e w) = w_step w \<or> w_step (handle e w) = w_step w + 1 \<or>
    w_step (handle e w) = w_step w - 1) \<and>
   (w_step (handle e1 w1) = w_step w1 + 1 \<longrightarrow>
      w_step w1 < 2 \<and>
      ((e1 = Siguiente \<and> validStep w1 \<and> \<not> w_sending w1) \<or> (\<exists>errs. e1 = Submit True errs))) \<and>
   (w_step (handle e2 w2) = w_step w2 - 1 \<longrightarrow> e2 = Anterior \<and> w_step w2 > 0)"
proof (intro conjI impI)
  show "w_step (fold handle es wizard_init) \<in> {0, 1, 2}"
    by (rule run_step_range) (simp add: wizard_init_def)
  show "w_step (handle e w) = w_step w \<or> w_step (handle e w) = w_step w + 1 \<or>
        w_step (handle e w) = w_step w - 1"
    using handle_step_cases [of e w] by blast
next
  assume "w_step (handle e1 w1) = w_step w1 + 1"
  then show "w_step w1 < 2" 
    and "(e1 = Siguiente \<and> validStep w1 \<and> \<not> w_sending w1) \<or> (\<exists>errs. e1 = Submit True errs)"
    using handle_step_cases [of e1 w1] by auto
next
  assume "w_step (handle e2 w2) = w_step w2 - 1"
  then show "e2 = Anterior" and "w_step w2 > 0"
    using handle_step_cases [of e2 w2] by auto
qed

lemma wizard_runs:
  "w_step (handle Siguiente (fill_general wizard_init)) = 1"
  "w_step (handle Anterior (handle Siguiente (fill_general wizard_init))) = 0"
  "w_step (fold handle [Other fill_general, Siguiente, Submit True None, Siguiente] wizard_init) = 2"
  by code_simp+

theorem wizard_step_transitions_witness:
  "w_step (fold handle [Other fill_general, Siguiente, Submit True None, Siguiente] wizard_init) = 2 \<and>
   w_step (handle Siguiente (fill_general wizard_init)) = w_step (fill_general wizard_init) + 1 \<and>
   validStep (fill_general wizard_init) \<and>
   w_step (handle Anterior (handle Siguiente (fill_general wizard_init))) =
     w_step (handle Siguiente (fill_general wizard_init)) - 1 \<and>
   w_step (handle Siguiente (fill_general wizard_init)) > 0"
  using wizard_step_transitions [of "[Other fill_general, Siguiente, Submit True None, Siguiente]"
      Siguiente "fill_general wizard_init" Siguiente "fill_general wizard_init"
      Anterior "handle Siguiente (fill_general wizard_init)"]
    wizard_runs
  by (simp add: fill_general_def wizard_init_def)

text \<open>
  At step 1 with no question chosen \<open>validStep()\<close> is false, and a form submission that the
  hook's \<open>validate()\<close> passes moves to step 2 all the same.
\<close>

theorem wizard_submit_counterexample:
  "w_step (fold handle [Other fill_general, Siguiente] wizard_init) = 1 \<and>
   \<not> validStep (fold handle [Other fill_general, Siguiente] wizard_init) \<and>
   w_step (handle (Submit True None) (fold handle [Other fill_general, Siguiente] wizard_init)) = 2"
  by code_simp

section \<open>The generation requests of the client\<close>

lemma count_of_not_NaN: "count_of v \<noteq> NaN"
  by (simp add: count_of_def truthy_num_def Let_def)

lemma count_of_absent:
  "count_of Undefined = Fin 0" "count_of Null = Fin 0" "count_of (Str '''') = Fin 0"
  by (simp_all add: count_of_def truthy_num_def StringToNumber_def trim_ws_def)

lemma count_of_cases: "count_of v = Fin 0 \<or> count_of v = js_Number v"
  by (cases v) (auto simp: count_of_def Let_def)

lemma js_add_finite:
  assumes "a \<notin> {NaN, PosInf, NegInf}" and "b \<notin> {NaN, PosInf, NegInf}"
  shows "js_add a b \<notin> {NaN, PosInf, NegInf}"
  using assms by (cases a; cases b) simp_all

lemma build_total:
  "ai_totalQuestions (buildAiInputFromForm raw) =
     sumDistribution (as_dto_distribution (ai_distribution (buildAiInputFromForm raw)))"
  by (simp add: buildAiInputFromForm_def sumDistribution_def as_dto_distribution_def nullish_def
      Let_def)

lemma build_counts:
  "counts (ai_distribution (buildAiInputFromForm raw)) =
     [count_of (rf_multipleChoice raw), count_of (rf_trueFalse raw), count_of (rf_analysis raw),
      count_of (rf_openEnded raw)]"
  by (simp add: buildAiInputFromForm_def counts_def Let_def)

lemma build_total_finite:
  assumes "\<forall>c \<in> set (counts (ai_distribution (buildAiInputFromForm raw))). c \<noteq> PosInf \<and> c \<noteq> NegInf"
  shows "js_eq (sumDistribution (as_dto_distribution (ai_distribution (buildAiInputFromForm raw))))
           (ai_totalQuestions (buildAiInputFromForm raw))"
proof -
  have fin: "count_of (rf_multipleChoice raw) \<notin> {NaN, PosInf, NegInf}"
    "count_of (rf_trueFalse raw) \<notin> {NaN, PosInf, NegInf}"
    "count_of (rf_analysis raw) \<notin> {NaN, PosInf, NegInf}"
    "count_of (rf_openEnded raw) \<notin> {NaN, PosInf, NegInf}"
    using assms by (simp_all add: build_counts count_of_not_NaN)
  have "ai_totalQuestions (buildAiInputFromForm raw) \<notin> {NaN, PosInf, NegInf}"
    unfolding buildAiInputFromForm_def Let_def
    using fin by (simp del: insert_iff add: js_add_finite)
  then show ?thesis
    by (simp add: build_total [symmetric] js_eq_def)
qed

lemma oneDto_counts:
  "counts (ai_distribution (oneDto raw t)) =
     map (\<lambda>k. if k = t then Fin 1 else Fin 0) question_kinds"
  by (simp add: oneDto_def counts_def question_kinds_def Let_def)

lemma oneDto_sum:
  assumes "t \<in> set question_kinds"
  shows "sumDistribution (as_dto_distribution (ai_distribution (oneDto raw t))) = Fin 1"
  using assms
  by (auto simp: oneDto_def question_kinds_def sumDistribution_def as_dto_distribution_def
      nullish_def Let_def)

text \<open>
  C10 (as the code has it). \<open>buildAiInputFromForm\<close> sets \<open>totalQuestions\<close> to the sum of
  the four counts, added in the order in which the controller's \<open>sumDistribution\<close> adds
  them, so the controller's comparison holds whenever no count is infinite. Each count
  is \<open>Number\<close> of its field or \<open>0\<close>, never \<open>NaN\<close>, and \<open>0\<close> for an absent or empty field.
  The single-question request of a question whose type is one of the four kinds has
  \<open>totalQuestions = 1\<close>, the count 1 for that kind and 0 for the three others, which sum
  to 1.
\<close>

theorem ai_requests_sum:
  "ai_totalQuestions (buildAiInputFromForm raw) =
     sumDistribution (as_dto_distribution (ai_distribution (buildAiInputFromForm raw))) \<and>
   ((\<forall>c \<in> set (counts (ai_distribution (buildAiInputFromForm raw))). c \<noteq> PosInf \<and> c \<noteq> NegInf) \<longrightarrow>
      js_eq (sumDistribution (as_dto_distribution (ai_distribution (buildAiInputFromForm raw))))
        (ai_totalQuestions (buildAiInputFromForm raw))) \<and>
   counts (ai_distribution (buildAiInputFromForm raw)) =
     [count_of (rf_multipleChoice raw), count_of (rf_trueFalse raw), count_of (rf_analysis raw),
      count_of (rf_openEnded raw)] \<and>
   count_of v \<noteq> NaN \<and> (count_of v = Fin 0 \<or> count_of v = js_Number v) \<and>
   count_of Undefined = Fin 0 \<and> count_of Null = Fin 0 \<and> count_of (Str '''') = Fin 0 \<and>
   (t \<in> set question_kinds \<longrightarrow>
      ai_totalQuestions (oneDto raw1 t) = Fin 1 \<and>
      counts (ai_distribution (oneDto raw1 t)) =
        map (\<lambda>k. if k = t then Fin 1 else Fin 0) question_kinds \<and>
      mset (counts (ai_distribution (oneDto raw1 t))) = {#Fin 1, Fin 0, Fin 0, Fin 0#} \<and>
      js_eq (sumDistribution (as_dto_distribution (ai_distribution (oneDto raw1 t))))
        (ai_totalQuestions (oneDto raw1 t)))"
proof (intro conjI impI)
  assume t: "t \<in> set question_kinds"
  show "ai_totalQuestions (oneDto raw1 t) = Fin 1"
    by (simp add: oneDto_def Let_def)
  show "counts (ai_distribution (oneDto raw1 t)) =
        map (\<lambda>k. if k = t then Fin 1 else Fin 0) question_kinds"
    by (rule oneDto_counts)
  show "mset (counts (ai_distribution (oneDto raw1 t))) = {#Fin 1, Fin 0, Fin 0, Fin 0#}"
    using t by (auto simp: oneDto_counts question_kinds_def)
  show "js_eq (sumDistribution (as_dto_distribution (ai_distribution (oneDto raw1 t))))
        (ai_totalQuestions (oneDto raw1 t))"
    using oneDto_sum [OF t, of raw1] by (simp add: js_eq_def oneDto_def Let_def)
next
  assume "\<forall>c \<in> set (counts (ai_distribution (buildAiInputFromForm raw))). c \<noteq> PosInf \<and> c \<noteq> NegInf"
  then show "js_eq (sumDistribution (as_dto_distribution (ai_distribution (buildAiInputFromForm raw))))
        (ai_totalQuestions (buildAiInputFromForm raw))"
    by (rule build_total_finite)
next
  show "ai_totalQuestions (buildAiInputFromForm raw) =
     sumDistribution (as_dto_distribution (ai_distribution (buildAiInputFromForm raw)))"
    by (rule build_total)
  show "counts (ai_distribution (buildAiInputFromForm raw)) =
     [count_of (rf_multipleChoice raw), count_of (rf_trueFalse raw), count_of (rf_analysis raw),
      count_of (rf_openEnded raw)]"
    by (rule build_counts)
  show "count_of v \<noteq> NaN"
    by (rule count_of_not_NaN)
  show "count_of v = Fin 0 \<or> count_of v = js_Number v"
    by (rule count_of_cases)
  show "count_of Undefined = Fin 0" "count_of Null = Fin 0" "count_of (Str []) = Fin 0"
    by (rule count_of_absent)+
qed

lemma form_example:
  "counts (ai_distribution (buildAiInputFromForm
      (form_of (Str ''2'') (Str ''1'') (Num (Fin 1)) Undefined))) = [Fin 2, Fin 1, Fin 1, Fin 0]"
  "ai_totalQuestions (buildAiInputFromForm
      (form_of (Str ''2'') (Str ''1'') (Num (Fin 1)) Undefined)) = Fin 4"
  by code_simp+

theorem ai_requests_sum_witness:
  "counts (ai_distribution (buildAiInputFromForm
      (form_of (Str ''2'') (Str ''1'') (Num (Fin 1)) Undefined))) = [Fin 2, Fin 1, Fin 1, Fin 0] \<and>
   ai_totalQuestions (buildAiInputFromForm
      (form_of (Str ''2'') (Str ''1'') (Num (Fin 1)) Undefined)) = Fin 4 \<and>
   js_eq (sumDistribution (as_dto_distribution (ai_distribution (buildAiInputFromForm
            (form_of (Str ''2'') (Str ''1'') (Num (Fin 1)) Undefined))))) (Fin 4) \<and>
   ''true_false'' \<in> set question_kinds \<and>
   ai_totalQuestions (oneDto (form_of (Str ''2'') (Str ''1'') (Num (Fin 1)) Undefined)
      ''true_false'') = Fin 1 \<and>
   counts (ai_distribution (oneDto (form_of (Str ''2'') (Str ''1'') (Num (Fin 1)) Undefined)
      ''true_false'')) = [Fin 0, Fin 1, Fin 0, Fin 0]"
proof -
  let ?F = "form_of (Str ''2'') (Str ''1'') (Num (Fin 1)) Undefined"
  note th = ai_requests_sum [of ?F "Str ''2''" "''true_false''" ?F]
  have k: "''true_false'' \<in> set question_kinds"
    by (simp add: question_kinds_def)
  have fin: "\<forall>c \<in> set (counts (ai_distribution (buildAiInputFromForm ?F))). c \<noteq> PosInf \<and> c \<noteq> NegInf"
    by (simp add: form_example)
  have eq: "js_eq (sumDistribution (as_dto_distribution (ai_distribution (buildAiInputFromForm ?F))))
              (ai_totalQuestions (buildAiInputFromForm ?F))"
    using th fin by blast
  have one: "ai_totalQuestions (oneDto ?F ''true_false'') = Fin 1"
    "counts (ai_distribution (oneDto ?F ''true_false'')) =
       map (\<lambda>k. if k = ''true_false'' then Fin 1 else Fin 0) question_kinds"
    using th k by blast+
  show ?thesis
    using eq one k form_example by (simp add: question_kinds_def)
qed

text \<open>A negative entry of the form stays negative in the distribution.\<close>

theorem buildAiInput_negative_counterexample:
  "counts (ai_distribution (buildAiInputFromForm
      (form_of (Str ''-3'') (Str ''5'') Undefined Undefined))) = [Fin (- 3), Fin 5, Fin 0, Fin 0] \<and>
   js_lt (multiple_choice (ai_distribution (buildAiInputFromForm
      (form_of (Str ''-3'') (Str ''5'') Undefined Undefined)))) (Fin 0) \<and>
   ai_totalQuestions (buildAiInputFromForm
      (form_of (Str ''-3'') (Str ''5'') Undefined Undefined)) = Fin 2"
  by code_simp

end
